theory Spec2Isabelle
  imports Complex_Main "HOL-Library.AList" "HOL-Library.Char_ord" "HOL-Library.List_Lexorder"
begin

section \<open>Data model of the circular scraper\<close>

text \<open>
  The development embeds \<^verbatim>\<open>src/circular-scraper.js\<close>. JavaScript numbers that hold share
  counts are integers (\<^typ>\<open>int\<close>); the one place where the source divides, the percentage
  of an unlock event, is computed over the rationals. Strings are \<^typ>\<open>string\<close>. A value of
  the source that may be \<^verbatim>\<open>null\<close> is an \<^typ>\<open>'a option\<close>.
\<close>

text \<open>An element of \<^verbatim>\<open>lockInEntries\<close>: \<^verbatim>\<open>{ shares, isLocked, unlockDate }\<close>, the date
  an ISO timestamp string (the result of \<^verbatim>\<open>toISOString()\<close>) or \<^verbatim>\<open>null\<close>.\<close>

record lock_in_entry =
  shares :: int
  isLocked :: bool
  unlockDate :: "string option"

text \<open>An element of \<^verbatim>\<open>unlockEvents\<close>: \<^verbatim>\<open>{ date, shares, percentage, label }\<close>; the dated
  events of the source carry no \<^verbatim>\<open>label\<close> property, which is \<open>None\<close> here.\<close>

record unlock_event =
  date :: "string option"
  eventShares :: int
  percentage :: rat
  label :: "string option"

record lock_in_data =
  totalShares :: int
  unlockEvents :: "unlock_event list"

section \<open>Characters and strings of the JavaScript runtime\<close>

text \<open>
  A JavaScript string is modelled as a list of 8-bit characters (code units below 256).
  The predicates follow the regular-expression classes \<^verbatim>\<open>\d\<close>, \<^verbatim>\<open>\w\<close> and \<^verbatim>\<open>\s\<close>;
  case conversion acts on the ASCII letters.
\<close>

definition isDigit :: "char \<Rightarrow> bool" where
  "isDigit c = (CHR ''0'' \<le> c \<and> c \<le> CHR ''9'')"

definition isUpper :: "char \<Rightarrow> bool" where
  "isUpper c = (CHR ''A'' \<le> c \<and> c \<le> CHR ''Z'')"

definition isLower :: "char \<Rightarrow> bool" where
  "isLower c = (CHR ''a'' \<le> c \<and> c \<le> CHR ''z'')"

definition isWord :: "char \<Rightarrow> bool" where
  "isWord c = (isDigit c \<or> isUpper c \<or> isLower c \<or> c = CHR ''_'')"

definition isSpace :: "char \<Rightarrow> bool" where
  "isSpace c =
     (c \<in> set [CHR 0x09, CHR 0x0A, CHR 0x0B, CHR 0x0C, CHR 0x0D, CHR '' '', CHR 0xA0])"

definition isDigitOrComma :: "char \<Rightarrow> bool" where
  "isDigitOrComma c = (isDigit c \<or> c = CHR '','')"

definition lowerChar :: "char \<Rightarrow> char" where
  "lowerChar c = (if isUpper c then char_of (of_char c + (32::nat)) else c)"

definition upperChar :: "char \<Rightarrow> char" where
  "upperChar c = (if isLower c then char_of (of_char c - (32::nat)) else c)"

definition toLowerCase :: "string \<Rightarrow> string" where
  "toLowerCase s = map lowerChar s"

definition toUpperCase :: "string \<Rightarrow> string" where
  "toUpperCase s = map upperChar s"

text \<open>\<^verbatim>\<open>s.substring(a, b)\<close> for \<open>a \<le> b\<close>, and \<^verbatim>\<open>s.substring(a)\<close>.\<close>

definition substring :: "string \<Rightarrow> nat \<Rightarrow> nat \<Rightarrow> string" where
  "substring s a b = take (b - a) (drop a s)"

definition substringFrom :: "string \<Rightarrow> nat \<Rightarrow> string" where
  "substringFrom s a = drop a s"

text \<open>\<^verbatim>\<open>s.includes(sub)\<close>\<close>

fun includesStr :: "string \<Rightarrow> string \<Rightarrow> bool" where
  "includesStr [] sub = (sub = [])"
| "includesStr (c # cs) sub = (take (length sub) (c # cs) = sub \<or> includesStr cs sub)"

text \<open>\<^verbatim>\<open>s.indexOf(c)\<close> for a single character: the first index, or \<open>-1\<close>.\<close>

fun indexOf :: "string \<Rightarrow> char \<Rightarrow> int" where
  "indexOf [] c = -1"
| "indexOf (x # xs) c =
     (if x = c then 0 else (let r = indexOf xs c in if r < 0 then -1 else r + 1))"

text \<open>\<^verbatim>\<open>s.trim()\<close>\<close>

definition trim :: "string \<Rightarrow> string" where
  "trim s = rev (dropWhile isSpace (rev (dropWhile isSpace s)))"

text \<open>\<^verbatim>\<open>s.split('\n')\<close> on the newline character; the separator regex \<^verbatim>\<open>/\n/\<close> of the
  source matches exactly that character.\<close>

fun splitLines :: "string \<Rightarrow> string list" where
  "splitLines [] = [[]]"
| "splitLines (c # cs) =
     (if c = CHR 0x0A then [] # splitLines cs
      else (case splitLines cs of [] \<Rightarrow> [[c]] | l # ls \<Rightarrow> (c # l) # ls))"

subsection \<open>Numbers and their decimal notation\<close>

definition digitValue :: "char \<Rightarrow> int" where
  "digitValue c = of_char c - 48"

definition digitsToInt :: "string \<Rightarrow> int" where
  "digitsToInt ds = foldl (\<lambda>a c. 10 * a + digitValue c) 0 ds"

text \<open>
  \<^verbatim>\<open>parseInt(s, 10)\<close>: leading white space is skipped, a sign is read, then the longest
  run of decimal digits; \<open>None\<close> stands for \<^verbatim>\<open>NaN\<close>, the result when no digit follows.
\<close>

definition parseInt :: "string \<Rightarrow> int option" where
  "parseInt s =
     (let t = dropWhile isSpace s;
          neg = (t \<noteq> [] \<and> hd t = CHR ''-'');
          u = (if t \<noteq> [] \<and> (hd t = CHR ''-'' \<or> hd t = CHR ''+'') then tl t else t);
          ds = takeWhile isDigit u
      in if ds = [] then None else Some (if neg then - digitsToInt ds else digitsToInt ds))"

definition digitChar :: "int \<Rightarrow> char" where
  "digitChar n = char_of (48 + n)"

text \<open>\<^verbatim>\<open>String(n)\<close> for an integer that is not negative.\<close>

function decimal :: "int \<Rightarrow> string" where
  "decimal n = (if n < 10 then [digitChar n] else decimal (n div 10) @ [digitChar (n mod 10)])"
  by pat_completeness auto
termination
  by (relation "measure nat") auto

text \<open>\<^verbatim>\<open>String(n).padStart(k, '0')\<close>\<close>

definition padStart :: "nat \<Rightarrow> string \<Rightarrow> string" where
  "padStart k s = replicate (k - length s) (CHR ''0'') @ s"

definition intToString :: "int \<Rightarrow> string" where
  "intToString i = (if i < 0 then CHR ''-'' # decimal (- i) else decimal i)"

section \<open>Regular expressions\<close>

text \<open>
  The regular expressions of the source are values of \<open>rx\<close>, run by a backtracking
  matcher that follows the ECMAScript rules: alternatives are tried from left to
  right, a quantifier is greedy, and the first way to match at the leftmost possible
  start wins. A matcher state is the position in the input, the character before it (for
  lookbehind and \<^verbatim>\<open>\b\<close>), the input that is left, and the groups captured so far.
\<close>

record mstate =
  position :: nat
  previous :: "char option"
  remaining :: string
  captures :: "(nat \<times> string) list"

datatype rx =
    Eps
  | Chars "char \<Rightarrow> bool"
  | Seq rx rx
  | Alt rx rx
  | Rep nat "nat option" rx
  | Group nat rx
  | NotBehind "char \<Rightarrow> bool"
  | NotAhead "char \<Rightarrow> bool"
  | WordBoundary
  | AtEnd

text \<open>
  \<open>rep_ends f lo hi st\<close>: the states after between \<open>lo\<close> and \<open>hi\<close> rounds of \<open>f\<close>, more
  rounds first.
\<close>

fun rep_ends ::
  "(mstate \<Rightarrow> mstate list) \<Rightarrow> nat \<Rightarrow> nat \<Rightarrow> mstate \<Rightarrow> mstate list" where
  "rep_ends f lo 0 st = (if lo = 0 then [st] else [])"
| "rep_ends f lo (Suc hi) st =
     concat (map (rep_ends f (lo - 1) hi) (f st)) @ (if lo = 0 then [st] else [])"

text \<open>
  \<open>rx_ends r st\<close>: every state in which a match of \<open>r\<close> that starts in \<open>st\<close> can end, in
  the order in which the backtracking matcher reaches them. A quantifier without upper
  bound is run for at most as many rounds as characters are left: every quantified
  expression of the source consumes a character in each round.
\<close>

fun rx_ends :: "rx \<Rightarrow> mstate \<Rightarrow> mstate list" where
  "rx_ends Eps st = [st]"
| "rx_ends (Chars p) st =
     (case remaining st of [] \<Rightarrow> []
      | c # cs \<Rightarrow> if p c then [st\<lparr>position := position st + 1, previous := Some c, remaining := cs\<rparr>] else [])"
| "rx_ends (Seq a b) st = concat (map (rx_ends b) (rx_ends a st))"
| "rx_ends (Alt a b) st = rx_ends a st @ rx_ends b st"
| "rx_ends (Rep lo hi r) st =
     rep_ends (\<lambda>x. rx_ends r x) lo (case hi of None \<Rightarrow> length (remaining st) | Some h \<Rightarrow> h) st"
| "rx_ends (Group n r) st =
     map (\<lambda>e. e\<lparr>captures := (n, take (position e - position st) (remaining st)) # captures e\<rparr>) (rx_ends r st)"
| "rx_ends (NotBehind p) st =
     (case previous st of None \<Rightarrow> [st] | Some c \<Rightarrow> if p c then [] else [st])"
| "rx_ends (NotAhead p) st =
     (case remaining st of [] \<Rightarrow> [st] | c # cs \<Rightarrow> if p c then [] else [st])"
| "rx_ends WordBoundary st =
     (let a = (case previous st of None \<Rightarrow> False | Some c \<Rightarrow> isWord c);
          b = (case remaining st of [] \<Rightarrow> False | c # cs \<Rightarrow> isWord c)
      in if a \<noteq> b then [st] else [])"
| "rx_ends AtEnd st = (if remaining st = [] then [st] else [])"

text \<open>
  \<^verbatim>\<open>regex.exec\<close> from a state: the leftmost start at or after it where the expression
  matches, as the pair of the state at the start and the state at the end of the match.
\<close>

function rx_exec :: "rx \<Rightarrow> mstate \<Rightarrow> (mstate \<times> mstate) option" where
  "rx_exec r st =
     (case rx_ends r (st\<lparr>captures := []\<rparr>) of
        e # _ \<Rightarrow> Some (st, e)
      | [] \<Rightarrow> (case remaining st of [] \<Rightarrow> None
               | c # cs \<Rightarrow> rx_exec r (st\<lparr>position := position st + 1, previous := Some c, remaining := cs\<rparr>)))"
  by pat_completeness auto
termination
  by (relation "measure (\<lambda>(r, st). length (remaining st))") auto

text \<open>
  The matches that a global expression yields in turn (\<^verbatim>\<open>while ((m = re.exec(s)) !== null)\<close>,
  or \<^verbatim>\<open>replace\<close> and \<^verbatim>\<open>match\<close> with the \<^verbatim>\<open>g\<close> flag): each rxSearch starts where the
  previous match ended. No expression of the source matches the empty string, so a match
  always moves on; the list ends should one not.
\<close>

function rx_all :: "rx \<Rightarrow> mstate \<Rightarrow> (mstate \<times> mstate) list" where
  "rx_all r st =
     (case rx_exec r st of None \<Rightarrow> []
      | Some (b, e) \<Rightarrow>
          (b, e) # (if length (remaining e) < length (remaining st) then rx_all r e else []))"
  by pat_completeness auto
termination
  by (relation "measure (\<lambda>(r, st). length (remaining st))") auto

definition startOf :: "string \<Rightarrow> mstate" where
  "startOf s = \<lparr>position = 0, previous = None, remaining = s, captures = []\<rparr>"

text \<open>The parts of a match object: \<^verbatim>\<open>m.index\<close>, the end index, \<^verbatim>\<open>m[0]\<close> and \<^verbatim>\<open>m[n]\<close>
  (\<open>None\<close> for a group that did not take part).\<close>

definition matchIndex :: "mstate \<times> mstate \<Rightarrow> nat" where
  "matchIndex m = position (fst m)"

definition matchEnd :: "mstate \<times> mstate \<Rightarrow> nat" where
  "matchEnd m = position (snd m)"

definition matchText :: "mstate \<times> mstate \<Rightarrow> string" where
  "matchText m = take (position (snd m) - position (fst m)) (remaining (fst m))"

definition matchGroup :: "mstate \<times> mstate \<Rightarrow> nat \<Rightarrow> string option" where
  "matchGroup m n = map_of (captures (snd m)) n"

text \<open>\<^verbatim>\<open>s.match(re)\<close> without the \<^verbatim>\<open>g\<close> flag, \<^verbatim>\<open>s.rxSearch(re)\<close> and \<^verbatim>\<open>re.rxTest(s)\<close>.\<close>

definition matchFirst :: "rx \<Rightarrow> string \<Rightarrow> (mstate \<times> mstate) option" where
  "matchFirst r s = rx_exec r (startOf s)"

definition rxSearch :: "rx \<Rightarrow> string \<Rightarrow> int" where
  "rxSearch r s = (case matchFirst r s of None \<Rightarrow> -1 | Some m \<Rightarrow> int (matchIndex m))"

definition rxTest :: "rx \<Rightarrow> string \<Rightarrow> bool" where
  "rxTest r s = (matchFirst r s \<noteq> None)"

definition matchAll :: "rx \<Rightarrow> string \<Rightarrow> (mstate \<times> mstate) list" where
  "matchAll r s = rx_all r (startOf s)"

text \<open>
  \<^verbatim>\<open>s.replace(re, f)\<close>: the text in between the matches is kept and each match gives way
  to what \<open>f\<close> makes of it. \<open>replaceAll\<close> is the call with a \<^verbatim>\<open>g\<close> expression,
  \<open>replaceFirst\<close> the call without the flag.
\<close>

fun spliceMatches ::
  "string \<Rightarrow> nat \<Rightarrow> (mstate \<times> mstate \<Rightarrow> string) \<Rightarrow> (mstate \<times> mstate) list \<Rightarrow> string" where
  "spliceMatches s p f [] = drop p s"
| "spliceMatches s p f (m # ms) =
     substring s p (matchIndex m) @ f m @ spliceMatches s (matchEnd m) f ms"

definition replaceAll :: "rx \<Rightarrow> (mstate \<times> mstate \<Rightarrow> string) \<Rightarrow> string \<Rightarrow> string" where
  "replaceAll r f s = spliceMatches s 0 f (matchAll r s)"

definition replaceFirst :: "rx \<Rightarrow> (mstate \<times> mstate \<Rightarrow> string) \<Rightarrow> string \<Rightarrow> string" where
  "replaceFirst r f s =
     (case matchFirst r s of None \<Rightarrow> s | Some m \<Rightarrow> spliceMatches s 0 f [m])"

text \<open>\<^verbatim>\<open>s.split(re)\<close>: the pieces of \<open>s\<close> around the matches.\<close>

fun pieces :: "string \<Rightarrow> nat \<Rightarrow> (mstate \<times> mstate) list \<Rightarrow> string list" where
  "pieces s p [] = [drop p s]"
| "pieces s p (m # ms) = substring s p (matchIndex m) # pieces s (matchEnd m) ms"

definition splitOn :: "rx \<Rightarrow> string \<Rightarrow> string list" where
  "splitOn r s = pieces s 0 (matchAll r s)"

text \<open>The substitution of a numbered group (\<^verbatim>\<open>$1\<close>) in a replacement string.\<close>

definition grp :: "mstate \<times> mstate \<Rightarrow> nat \<Rightarrow> string" where
  "grp m n = (case matchGroup m n of None \<Rightarrow> [] | Some g \<Rightarrow> g)"

subsection \<open>Building blocks\<close>

definition rxChr :: "char \<Rightarrow> rx" where
  "rxChr c = Chars (\<lambda>x. x = c)"

text \<open>A letter under the \<^verbatim>\<open>i\<close> flag.\<close>

definition rxChrI :: "char \<Rightarrow> rx" where
  "rxChrI c = Chars (\<lambda>x. lowerChar x = lowerChar c)"

fun seqs :: "rx list \<Rightarrow> rx" where
  "seqs [] = Eps"
| "seqs [r] = r"
| "seqs (r # rs) = Seq r (seqs rs)"

fun alts :: "rx list \<Rightarrow> rx" where
  "alts [] = Chars (\<lambda>x. False)"
| "alts [r] = r"
| "alts (r # rs) = Alt r (alts rs)"

definition lit :: "string \<Rightarrow> rx" where
  "lit s = seqs (map rxChr s)"

definition litI :: "string \<Rightarrow> rx" where
  "litI s = seqs (map rxChrI s)"

definition rxStar :: "rx \<Rightarrow> rx" where
  "rxStar r = Rep 0 None r"

definition rxPlus :: "rx \<Rightarrow> rx" where
  "rxPlus r = Rep 1 None r"

definition rxOpt :: "rx \<Rightarrow> rx" where
  "rxOpt r = Rep 0 (Some 1) r"

definition rxAtLeast :: "nat \<Rightarrow> rx \<Rightarrow> rx" where
  "rxAtLeast n r = Rep n None r"

definition rxBetween :: "nat \<Rightarrow> nat \<Rightarrow> rx \<Rightarrow> rx" where
  "rxBetween lo hi r = Rep lo (Some hi) r"

text \<open>\<^verbatim>\<open>\d\<close>, \<^verbatim>\<open>\w\<close>, \<^verbatim>\<open>\s\<close>, \<^verbatim>\<open>[\d,]\<close>, \<^verbatim>\<open>[\s-]\<close>, \<^verbatim>\<open>\d{1,2}\<close>, \<^verbatim>\<open>\d{4}\<close> and
  \<^verbatim>\<open>\w{3,}\<close>.\<close>

definition rxD :: rx where "rxD = Chars isDigit"
definition rxW :: rx where "rxW = Chars isWord"
definition rxS :: rx where "rxS = Chars isSpace"
definition rxDC :: rx where "rxDC = Chars isDigitOrComma"
definition rxSD :: rx where "rxSD = Chars (\<lambda>c. isSpace c \<or> c = CHR ''-'')"
definition rxD12 :: rx where "rxD12 = rxBetween 1 2 rxD"
definition rxD4 :: rx where "rxD4 = rxBetween 4 4 rxD"
definition rxW3 :: rx where "rxW3 = rxAtLeast 3 rxW"

section \<open>Dates of the JavaScript runtime\<close>

text \<open>
  A \<^verbatim>\<open>Date\<close> is its time value, the milliseconds since the epoch in UTC. The local
  time zone of the host is a parameter \<open>tz\<close> of every function that reads or builds local
  time: the offset of local time from UTC in minutes, positive east of Greenwich
  (\<open>330\<close> for India, \<open>0\<close> for a host on UTC), taken as constant. The day arithmetic is that
  of the ECMAScript specification (\<^verbatim>\<open>DayFromYear\<close>, \<^verbatim>\<open>MakeDay\<close>); the way back from a
  day number to year, month and day is the closed form for the proleptic Gregorian
  calendar. The dates built here lie far inside the range of time values, so \<^verbatim>\<open>TimeClip\<close>
  never applies.
\<close>

type_synonym jsdate = int

definition msPerDay :: int where
  "msPerDay = 86400000"

definition DayFromYear :: "int \<Rightarrow> int" where
  "DayFromYear y =
     365 * (y - 1970) + (y - 1969) div 4 - (y - 1901) div 100 + (y - 1601) div 400"

definition InLeapYear :: "int \<Rightarrow> bool" where
  "InLeapYear y = (y mod 4 = 0 \<and> (y mod 100 \<noteq> 0 \<or> y mod 400 = 0))"

text \<open>The days of a year that lie before the month with index \<open>mn\<close> (\<open>0\<close> to \<open>11\<close>).\<close>

definition daysBeforeMonth :: "int \<Rightarrow> int \<Rightarrow> int" where
  "daysBeforeMonth y mn =
     [0, 31, 59, 90, 120, 151, 181, 212, 243, 273, 304, 334] ! nat mn
       + (if InLeapYear y \<and> 2 \<le> mn then 1 else 0)"

text \<open>\<^verbatim>\<open>MakeDay(year, month, date)\<close>: a month index outside \<open>0..11\<close> carries into the
  year, a day outside the month carries into the neighbouring months.\<close>

definition MakeDay :: "int \<Rightarrow> int \<Rightarrow> int \<Rightarrow> int" where
  "MakeDay year month dt =
     (let ym = year + month div 12; mn = month mod 12
      in DayFromYear ym + daysBeforeMonth ym mn + dt - 1)"

text \<open>Year, month (\<open>1\<close> to \<open>12\<close>) and day of the month of a day number.\<close>

definition civilFromDays :: "int \<Rightarrow> int \<times> int \<times> int" where
  "civilFromDays z =
     (let z' = z + 719468;
          era = z' div 146097;
          doe = z' mod 146097;
          yoe = (doe - doe div 1460 + doe div 36524 - doe div 146096) div 365;
          doy = doe - (365 * yoe + yoe div 4 - yoe div 100);
          mp = (5 * doy + 2) div 153;
          d = doy - (153 * mp + 2) div 5 + 1;
          m = (if mp < 10 then mp + 3 else mp - 9);
          y = yoe + era * 400 + (if m \<le> 2 then 1 else 0)
      in (y, m, d))"

text \<open>\<^verbatim>\<open>new Date(year, monthIndex, day)\<close>: local midnight of that day; a year from \<open>0\<close> to
  \<open>99\<close> stands for a year of the twentieth century.\<close>

definition newDate :: "int \<Rightarrow> int \<Rightarrow> int \<Rightarrow> int \<Rightarrow> jsdate" where
  "newDate tz year month day =
     (let yr = (if 0 \<le> year \<and> year \<le> 99 then 1900 + year else year)
      in MakeDay yr month day * msPerDay - tz * 60000)"

definition localTime :: "int \<Rightarrow> jsdate \<Rightarrow> int" where
  "localTime tz t = t + tz * 60000"

definition getFullYear :: "int \<Rightarrow> jsdate \<Rightarrow> int" where
  "getFullYear tz t = fst (civilFromDays (localTime tz t div msPerDay))"

definition getMonth :: "int \<Rightarrow> jsdate \<Rightarrow> int" where
  "getMonth tz t = fst (snd (civilFromDays (localTime tz t div msPerDay))) - 1"

definition getDate :: "int \<Rightarrow> jsdate \<Rightarrow> int" where
  "getDate tz t = snd (snd (civilFromDays (localTime tz t div msPerDay)))"

text \<open>\<^verbatim>\<open>d.setDate(dt)\<close>: the day of the month is replaced in local time, the time of day
  is kept; the result is the new time value of \<open>d\<close>.\<close>

definition setDate :: "int \<Rightarrow> jsdate \<Rightarrow> int \<Rightarrow> jsdate" where
  "setDate tz t dt =
     MakeDay (getFullYear tz t) (getMonth tz t) dt * msPerDay
       + localTime tz t mod msPerDay - tz * 60000"

text \<open>\<^verbatim>\<open>d.toISOString()\<close>: the UTC date and time, \<^verbatim>\<open>YYYY-MM-DDTHH:mm:ss.sssZ\<close>, the year
  with a sign and six digits outside \<open>0..9999\<close>.\<close>

definition isoYear :: "int \<Rightarrow> string" where
  "isoYear y =
     (if 0 \<le> y \<and> y \<le> 9999 then padStart 4 (decimal y)
      else (if y < 0 then CHR ''-'' else CHR ''+'') # padStart 6 (decimal \<bar>y\<bar>))"

definition pad2 :: "int \<Rightarrow> string" where
  "pad2 n = padStart 2 (decimal n)"

definition toISOString :: "jsdate \<Rightarrow> string" where
  "toISOString t =
     (let (y, m, d) = civilFromDays (t div msPerDay); ms = t mod msPerDay
      in isoYear y @ ''-'' @ pad2 m @ ''-'' @ pad2 d @ ''T''
           @ pad2 (ms div 3600000) @ '':'' @ pad2 (ms div 60000 mod 60) @ '':''
           @ pad2 (ms div 1000 mod 60) @ ''.'' @ padStart 3 (decimal (ms mod 1000))
           @ ''Z'')"

section \<open>buildUnlockEvents\<close>

text \<open>\<^verbatim>\<open>Math.round\<close>: the nearest integer, a tie going towards rxPlus infinity.\<close>

definition Math_round :: "rat \<Rightarrow> int" where
  "Math_round x = \<lfloor>x + 1 / 2\<rfloor>"

text \<open>\<^verbatim>\<open>totalShares > 0 ? Math.round((shares / totalShares) * 1000) / 10 : 0\<close>\<close>

definition percentageOf :: "int \<Rightarrow> int \<Rightarrow> rat" where
  "percentageOf s tot =
     (if tot > 0 then of_int (Math_round ((of_int s / of_int tot) * 1000)) / 10 else 0)"

text \<open>JavaScript truthiness of a string-or-null value: \<^verbatim>\<open>null\<close> and the empty string are
  falsy.\<close>

fun truthy :: "string option \<Rightarrow> bool" where
  "truthy None = False"
| "truthy (Some s) = (s \<noteq> [])"

text \<open>\<^verbatim>\<open>entry.unlockDate.substring(0, 10)\<close>\<close>

definition dateKey :: "string \<Rightarrow> string" where
  "dateKey d = take 10 d"

text \<open>\<^verbatim>\<open>unlockMap.get(dateKey) || 0\<close> on a \<^verbatim>\<open>Map\<close> kept as an association list in
  insertion order.\<close>

definition getOrZero :: "(string \<times> int) list \<Rightarrow> string \<Rightarrow> int" where
  "getOrZero m k = (case map_of m k of None \<Rightarrow> 0 | Some v \<Rightarrow> v)"

text \<open>The \<^verbatim>\<open>for (const entry of lockInEntries)\<close> loop; the state is the pair of
  \<^verbatim>\<open>unlockMap\<close> and \<^verbatim>\<open>notLockedShares\<close>. \<^verbatim>\<open>Map.set\<close> overwrites the value of a key
  that is present and appends a new key at the end, as \<^const>\<open>AList.update\<close> does.\<close>

fun collectEntries ::
  "lock_in_entry list \<Rightarrow> (string \<times> int) list \<Rightarrow> int \<Rightarrow> (string \<times> int) list \<times> int" where
  "collectEntries [] unlockMap notLockedShares = (unlockMap, notLockedShares)"
| "collectEntries (entry # rest) unlockMap notLockedShares =
     (if \<not> isLocked entry then collectEntries rest unlockMap (notLockedShares + shares entry)
      else if \<not> truthy (unlockDate entry) then collectEntries rest unlockMap notLockedShares
      else let k = dateKey (the (unlockDate entry))
           in collectEntries rest
                (AList.update k (getOrZero unlockMap k + shares entry) unlockMap)
                notLockedShares)"

text \<open>The \<^verbatim>\<open>.map(([date, shares]) => ({ date, shares, percentage }))\<close> step.\<close>

definition datedEvent :: "int \<Rightarrow> string \<times> int \<Rightarrow> unlock_event" where
  "datedEvent tot p =
     \<lparr>date = Some (fst p), eventShares = snd p, percentage = percentageOf (snd p) tot,
      label = None\<rparr>"

text \<open>The object that \<^verbatim>\<open>unshift\<close> puts in front when \<^verbatim>\<open>notLockedShares > 0\<close>.\<close>

definition notLockedEvent :: "int \<Rightarrow> int \<Rightarrow> unlock_event" where
  "notLockedEvent tot n =
     \<lparr>date = None, eventShares = n, percentage = percentageOf n tot,
      label = Some ''Not under lock-in''\<rparr>"

text \<open>
  \<^verbatim>\<open>Array.from(unlockMap.entries()).sort((a, b) => a[0].localeCompare(b[0]))\<close>: a stable
  sort on the key. The keys are compared as character lists, lexicographically by character
  code; on keys of the shape \<^verbatim>\<open>YYYY-MM-DD\<close> this is the order \<^verbatim>\<open>localeCompare\<close> gives.
\<close>

definition buildUnlockEvents :: "lock_in_entry list \<Rightarrow> int \<Rightarrow> lock_in_data" where
  "buildUnlockEvents lockInEntries tot =
     (let (unlockMap, notLockedShares) = collectEntries lockInEntries [] 0;
          events = map (datedEvent tot) (sort_key fst unlockMap)
      in \<lparr>totalShares = tot,
          unlockEvents =
            (if notLockedShares > 0 then notLockedEvent tot notLockedShares # events
             else events)\<rparr>)"

section \<open>Utility functions\<close>

text \<open>\<^verbatim>\<open>a || b\<close> on string-or-undefined values.\<close>

definition orElse :: "string option \<Rightarrow> string option \<Rightarrow> string option" where
  "orElse a b = (if truthy a then a else b)"

text \<open>\<^verbatim>\<open>parseInt\<close> of a value that may be \<^verbatim>\<open>undefined\<close>.\<close>

definition parseIntOpt :: "string option \<Rightarrow> int option" where
  "parseIntOpt v = (case v of None \<Rightarrow> None | Some s \<Rightarrow> parseInt s)"

text \<open>\<^verbatim>\<open>parseIndianNumber\<close>: \<^verbatim>\<open>parseInt(str.replace(/,/g, ''), 10) || 0\<close>, and \<open>0\<close> for
  the empty string.\<close>

definition parseIndianNumber :: "string \<Rightarrow> int" where
  "parseIndianNumber str =
     (if str = [] then 0
      else case parseInt (filter (\<lambda>c. c \<noteq> CHR '','') str) of None \<Rightarrow> 0 | Some v \<Rightarrow> v)"

text \<open>The \<^verbatim>\<open>months\<close> table of \<^verbatim>\<open>parseBSEDate\<close>; \<open>None\<close> is \<^verbatim>\<open>undefined\<close>.\<close>

definition months :: "string \<Rightarrow> int option" where
  "months k =
     map_of [(''jan'', 0), (''feb'', 1), (''mar'', 2), (''apr'', 3), (''may'', 4), (''jun'', 5),
             (''jul'', 6), (''aug'', 7), (''sep'', 8), (''oct'', 9), (''nov'', 10), (''dec'', 11)] k"

text \<open>\<^verbatim>\<open>(\d{1,2})-(\w{3,}|\d{1,2})-(\d{4})\<close>, \<^verbatim>\<open>(\d{1,2})\.(\d{1,2})\.(\d{4})\<close> and
  \<^verbatim>\<open>(\d{1,2})\/(\d{1,2})\/(\d{4})\<close>, with groups numbered from \<open>g + 1\<close>.\<close>

definition dashDate :: "nat \<Rightarrow> rx" where
  "dashDate g =
     seqs [Group (g + 1) rxD12, rxChr (CHR ''-''), Group (g + 2) (Alt rxW3 rxD12),
           rxChr (CHR ''-''), Group (g + 3) rxD4]"

definition dotDate :: "nat \<Rightarrow> rx" where
  "dotDate g =
     seqs [Group (g + 1) rxD12, rxChr (CHR ''.''), Group (g + 2) rxD12, rxChr (CHR ''.''),
           Group (g + 3) rxD4]"

definition slashDate :: "nat \<Rightarrow> rx" where
  "slashDate g =
     seqs [Group (g + 1) rxD12, rxChr (CHR ''/''), Group (g + 2) rxD12, rxChr (CHR ''/''),
           Group (g + 3) rxD4]"

text \<open>The expression of \<^verbatim>\<open>parseBSEDate\<close> (dots, slashes, dashes) and the \<^verbatim>\<open>dateRegex\<close>
  of \<^verbatim>\<open>parseUniversalBSEFormat\<close> and \<^verbatim>\<open>findDateNear\<close> (dashes, dots, slashes).\<close>

definition bseDateRegex :: rx where
  "bseDateRegex = alts [dotDate 0, slashDate 3, dashDate 6]"

definition dateRegex :: rx where
  "dateRegex = alts [dashDate 0, dotDate 3, slashDate 6]"

text \<open>The repairs of \<^verbatim>\<open>parseBSEDate\<close> on a string that the first expression does not
  match: \<^verbatim>\<open>/Aul!\.?/i\<close>, \<^verbatim>\<open>/Mav/i\<close>, \<^verbatim>\<open>/Aoril/i\<close>, then every character outside
  \<^verbatim>\<open>[\w\d-]\<close> is deleted.\<close>

definition cleanDate :: "string \<Rightarrow> string" where
  "cleanDate dateStr =
     filter (\<lambda>c. isWord c \<or> isDigit c \<or> c = CHR ''-'')
       (replaceFirst (litI ''Aoril'') (\<lambda>m. ''April'')
         (replaceFirst (litI ''Mav'') (\<lambda>m. ''May'')
           (replaceFirst (Seq (litI ''Aul!'') (rxOpt (rxChr (CHR ''.'')))) (\<lambda>m. ''Aug'')
              dateStr)))"

text \<open>
  \<^verbatim>\<open>parseBSEDate\<close>; \<open>None\<close> is \<^verbatim>\<open>null\<close>. The month is the number read by \<^verbatim>\<open>parseInt\<close>
  less one, or else the entry of \<^verbatim>\<open>months\<close> for the first three letters. Every
  alternative of the expression sets its three groups, so the month string is never
  \<^verbatim>\<open>undefined\<close> after a match.
\<close>

definition monthIndex :: "string \<Rightarrow> int option" where
  "monthIndex monthStr =
     (case parseInt monthStr of
        Some n \<Rightarrow> Some (n - 1)
      | None \<Rightarrow> months (substring (toLowerCase monthStr) 0 3))"

definition parseBSEDate :: "int \<Rightarrow> string \<Rightarrow> jsdate option" where
  "parseBSEDate tz dateStr =
     (if dateStr = [] then None
      else case matchFirst bseDateRegex dateStr of
        Some m \<Rightarrow>
          (let dayStr = orElse (matchGroup m 1) (orElse (matchGroup m 4) (matchGroup m 7));
               monthStr = orElse (matchGroup m 2) (orElse (matchGroup m 5) (matchGroup m 8));
               yearStr = orElse (matchGroup m 3) (orElse (matchGroup m 6) (matchGroup m 9))
           in case (parseIntOpt dayStr, monthStr, parseIntOpt yearStr) of
                (Some day, Some ms, Some year) \<Rightarrow>
                  (case monthIndex ms of None \<Rightarrow> None
                   | Some month \<Rightarrow> Some (newDate tz year month day))
              | _ \<Rightarrow> None)
      | None \<Rightarrow>
          (case matchFirst (dashDate 0) (cleanDate dateStr) of
             None \<Rightarrow> None
           | Some m \<Rightarrow>
               (case (parseInt (grp m 1), monthIndex (toLowerCase (grp m 2)), parseInt (grp m 3)) of
                  (Some day, Some month, Some year) \<Rightarrow> Some (newDate tz year month day)
                | _ \<Rightarrow> None)))"

section \<open>findDateNear\<close>

text \<open>
  The window is \<^verbatim>\<open>Math.min(range, 60)\<close> characters after \<open>startIndex\<close>, cut at the first
  newline whose index in the window is positive. Of the dates in the window whose
  local year is above 2000, the latest is returned as an ISO string.
\<close>

definition findDateNear :: "int \<Rightarrow> string \<Rightarrow> nat \<Rightarrow> nat \<Rightarrow> string option" where
  "findDateNear tz text startIndex rng =
     (let chunk0 = substring text startIndex (startIndex + min rng 60);
          newlineIdx = indexOf chunk0 (CHR 0x0A);
          chunk = (if newlineIdx > 0 then substring chunk0 0 (nat newlineIdx) else chunk0);
          dates = List.map_filter
                    (\<lambda>m. case parseBSEDate tz (matchText m) of
                            None \<Rightarrow> None
                          | Some d \<Rightarrow> if getFullYear tz d > 2000 then Some (d, matchIndex m)
                                      else None)
                    (matchAll dateRegex chunk);
          rowDates = sort_key fst (sort_key snd dates)
      in if dates \<noteq> [] then Some (toISOString (fst (last rowDates))) else None)"

section \<open>parseNSEFormat and parseNSEFallback\<close>

text \<open>\<^verbatim>\<open>/Annexure[\s-]*I?\b/i\<close>\<close>

definition annexureRegex :: rx where
  "annexureRegex = seqs [litI ''Annexure'', rxStar rxSD, rxOpt (rxChrI (CHR ''I'')), WordBoundary]"

text \<open>\<^verbatim>\<open>/Lock[\s-]*in[\s]*(?:up[\s]*to|details)/i\<close>\<close>

definition lockInRegex :: rx where
  "lockInRegex =
     seqs [litI ''Lock'', rxStar rxSD, litI ''in'', rxStar rxS,
           Alt (seqs [litI ''up'', rxStar rxS, litI ''to'']) (litI ''details'')]"

text \<open>\<^verbatim>\<open>/([\d,]+)\s+[\d,]+\s+[\d,]+\s+((?:\d{1,2}-\w{3,}-\d{4})|Free)/gi\<close>\<close>

definition lineRegex :: rx where
  "lineRegex =
     seqs [Group 1 (rxPlus rxDC), rxPlus rxS, rxPlus rxDC, rxPlus rxS, rxPlus rxDC, rxPlus rxS,
           Group 2 (Alt (seqs [rxD12, rxChr (CHR ''-''), rxW3, rxChr (CHR ''-''), rxD4])
                        (litI ''Free''))]"

text \<open>The object pushed for a row: \<^verbatim>\<open>Free\<close> gives an entry that is not locked, anything
  else a locked entry whose date is \<^verbatim>\<open>parseBSEDate(...)\<close> as an ISO string, or \<^verbatim>\<open>null\<close>.\<close>

definition freeEntry :: "int \<Rightarrow> lock_in_entry" where
  "freeEntry n = \<lparr>shares = n, isLocked = False, unlockDate = None\<rparr>"

definition lockedEntry :: "int \<Rightarrow> int \<Rightarrow> string \<Rightarrow> lock_in_entry" where
  "lockedEntry tz n dateStr =
     \<lparr>shares = n, isLocked = True, unlockDate = map_option toISOString (parseBSEDate tz dateStr)\<rparr>"

text \<open>The body of the \<^verbatim>\<open>while ((match = lineRegex.exec(section)) !== null)\<close> loop; the
  state is the pair of \<^verbatim>\<open>lockInEntries\<close> and \<^verbatim>\<open>totalShares\<close>.\<close>

definition nseRow ::
  "int \<Rightarrow> lock_in_entry list \<times> int \<Rightarrow> mstate \<times> mstate \<Rightarrow> lock_in_entry list \<times> int" where
  "nseRow tz st m =
     (let n = parseIndianNumber (grp m 1); lockInfo = trim (grp m 2)
      in if n \<le> 0 then st
         else if toLowerCase lockInfo = ''free'' then (fst st @ [freeEntry n], snd st + n)
         else (fst st @ [lockedEntry tz n lockInfo], snd st + n))"

text \<open>\<^verbatim>\<open>/[\d,]{3,}/g\<close>, \<^verbatim>\<open>/(\d{1,2}-\w{3,}-\d{4})/\<close> and \<^verbatim>\<open>/\bFree\b/i\<close>\<close>

definition fallbackNumRegex :: rx where
  "fallbackNumRegex = rxAtLeast 3 rxDC"

definition fallbackDateRegex :: rx where
  "fallbackDateRegex = Group 1 (seqs [rxD12, rxChr (CHR ''-''), rxW3, rxChr (CHR ''-''), rxD4])"

definition freeWordRegex :: rx where
  "freeWordRegex = seqs [WordBoundary, litI ''Free'', WordBoundary]"

text \<open>The body of the \<^verbatim>\<open>for (const seg of segments)\<close> loop of \<^verbatim>\<open>parseNSEFallback\<close>.\<close>

definition fallbackSegment ::
  "int \<Rightarrow> lock_in_entry list \<times> int \<Rightarrow> string \<Rightarrow> lock_in_entry list \<times> int" where
  "fallbackSegment tz st seg =
     (let nums = map matchText (matchAll fallbackNumRegex seg);
          dateMatch = matchFirst fallbackDateRegex seg;
          isFree = rxTest freeWordRegex seg
      in if nums \<noteq> [] \<and> (dateMatch \<noteq> None \<or> isFree) then
           (let n = parseIndianNumber (hd nums)
            in if n \<le> 0 then st
               else if isFree then (fst st @ [freeEntry n], snd st + n)
               else (fst st @ [lockedEntry tz n (grp (the dateMatch) 1)], snd st + n))
         else st)"

text \<open>\<^verbatim>\<open>parseNSEFallback\<close> up to its last line, the call of \<^verbatim>\<open>buildUnlockEvents\<close>.\<close>

definition nseFallbackEntries ::
  "int \<Rightarrow> string \<Rightarrow> int \<Rightarrow> lock_in_entry list \<Rightarrow> lock_in_entry list \<times> int" where
  "nseFallbackEntries tz text existingTotal existingEntries =
     foldl (fallbackSegment tz) (existingEntries, existingTotal) (splitLines text)"

definition parseNSEFallback ::
  "int \<Rightarrow> string \<Rightarrow> int \<Rightarrow> lock_in_entry list \<Rightarrow> lock_in_data" where
  "parseNSEFallback tz text existingTotal existingEntries =
     (case nseFallbackEntries tz text existingTotal existingEntries of
        (entries, tot) \<Rightarrow> buildUnlockEvents entries tot)"

text \<open>\<^verbatim>\<open>parseNSEFormat\<close> up to the calls of \<^verbatim>\<open>buildUnlockEvents\<close>: the entries and the
  total handed over, by the main loop or, with fewer than two entries, by the fallback.\<close>

definition nseSection :: "string \<Rightarrow> string" where
  "nseSection text =
     (let annexureStart = rxSearch annexureRegex text;
          lockInStart = rxSearch lockInRegex text;
          startPos = max (max annexureStart lockInStart) 0
      in substringFrom text (nat startPos))"

definition nseFormatEntries :: "int \<Rightarrow> string \<Rightarrow> lock_in_entry list \<times> int" where
  "nseFormatEntries tz text =
     (let section = nseSection text;
          st = foldl (nseRow tz) ([], 0) (matchAll lineRegex section)
      in if length (fst st) < 2 then nseFallbackEntries tz section (snd st) (fst st) else st)"

definition parseNSEFormat :: "int \<Rightarrow> string \<Rightarrow> lock_in_data" where
  "parseNSEFormat tz text =
     (case nseFormatEntries tz text of (entries, tot) \<Rightarrow> buildUnlockEvents entries tot)"

section \<open>parseUniversalBSEFormat\<close>

text \<open>\<^verbatim>\<open>/([A-Z][a-z]{2,8})\s+(\d{1,2}),\s+(\d{4})/g\<close>, replaced by \<^verbatim>\<open>$2-$1-$3\<close>.\<close>

definition monthNameDateRegex :: rx where
  "monthNameDateRegex =
     seqs [Group 1 (Seq (Chars isUpper) (rxBetween 2 8 (Chars isLower))), rxPlus rxS,
           Group 2 rxD12, rxChr (CHR '',''), rxPlus rxS, Group 3 rxD4]"

definition normalizeMonthDates :: "string \<Rightarrow> string" where
  "normalizeMonthDates normText =
     replaceAll monthNameDateRegex (\<lambda>m. grp m 2 @ ''-'' @ grp m 1 @ ''-'' @ grp m 3) normText"

text \<open>The scratch copy for number extraction: every date gives way to as many blanks.\<close>

definition maskDates :: "string \<Rightarrow> string" where
  "maskDates text =
     replaceAll dateRegex (\<lambda>m. replicate (length (matchText m)) (CHR '' '')) text"

text \<open>\<^verbatim>\<open>/(?<![\d,])(\d{1,3}(?:,\d{2,3})+|\d+)(?![\d,])/g\<close>\<close>

definition numRegex :: rx where
  "numRegex =
     seqs [NotBehind isDigitOrComma,
           Group 1 (Alt (Seq (rxBetween 1 3 rxD)
                             (rxPlus (Seq (rxChr (CHR '','')) (rxBetween 2 3 rxD))))
                        (rxPlus rxD)),
           NotAhead isDigitOrComma]"

text \<open>An element of \<^verbatim>\<open>nums\<close>: \<^verbatim>\<open>{ val, rawStr, index, strLength }\<close>.\<close>

record num_run =
  val :: int
  rawStr :: string
  index :: nat
  strLength :: nat

definition extractNums :: "string \<Rightarrow> num_run list" where
  "extractNums textForNums =
     List.map_filter
       (\<lambda>m. let valStr = grp m 1; raw = filter (\<lambda>c. c \<noteq> CHR '','') valStr
            in case parseInt raw of
                 None \<Rightarrow> None
               | Some v \<Rightarrow>
                   if v > 0
                   then Some \<lparr>val = v, rawStr = raw, index = matchIndex m,
                              strLength = length valStr\<rparr>
                   else None)
       (matchAll numRegex textForNums)"

text \<open>The first result that is not \<open>None\<close>, in the order of the list: a \<^verbatim>\<open>for\<close> loop that
  returns, or breaks, at its first hit.\<close>

fun firstSome :: "('a \<Rightarrow> 'b option) \<Rightarrow> 'a list \<Rightarrow> 'b option" where
  "firstSome f [] = None"
| "firstSome f (x # xs) = (case f x of Some y \<Rightarrow> Some y | None \<Rightarrow> firstSome f xs)"

text \<open>\<^verbatim>\<open>s.length > 1 && s.startsWith('0')\<close>\<close>

definition leadingZero :: "string \<Rightarrow> bool" where
  "leadingZero s = (length s > 1 \<and> hd s = CHR ''0'')"

text \<open>\<^verbatim>\<open>findMathTripletInString\<close>: \<open>i\<close> runs from \<open>1\<close> to \<open>len - 2\<close>, \<open>j\<close> from \<open>i + 1\<close> to
  \<open>len - 1\<close>.\<close>

definition findMathTripletInString :: "string \<Rightarrow> (int \<times> int \<times> int) option" where
  "findMathTripletInString str =
     (let len = length str
      in firstSome
           (\<lambda>(i, j).
              let A_str = substring str 0 i; B_str = substring str i j;
                  C_str = substring str j len
              in if leadingZero A_str \<or> leadingZero B_str \<or> leadingZero C_str then None
                 else case (parseInt A_str, parseInt B_str, parseInt C_str) of
                        (Some A, Some B, Some C) \<Rightarrow>
                          if A = C - B + 1 \<and> A > 100 then Some (A, B, C) else None
                      | _ \<Rightarrow> None)
           (concat (map (\<lambda>i. map (\<lambda>j. (i, j)) [i + 1..<len]) [1..<len - 1])))"

text \<open>\<^verbatim>\<open>findMathPairInString\<close>: \<open>i\<close> runs from \<open>1\<close> to \<open>len - 1\<close>.\<close>

definition findMathPairInString :: "string \<Rightarrow> int \<Rightarrow> (int \<times> int) option" where
  "findMathPairInString str A =
     (let len = length str
      in firstSome
           (\<lambda>i. let B_str = substring str 0 i; C_str = substring str i len
                in if leadingZero B_str \<or> leadingZero C_str then None
                   else case (parseInt B_str, parseInt C_str) of
                          (Some B, Some C) \<Rightarrow> if A = C - B + 1 then Some (B, C) else None
                        | _ \<Rightarrow> None)
           [1..<len])"

text \<open>The state of the main loop: \<^verbatim>\<open>lockInEntries\<close>, \<^verbatim>\<open>totalSharesParsed\<close> and
  \<^verbatim>\<open>usedIndices\<close>.\<close>

record bse_state =
  lockInEntries :: "lock_in_entry list"
  totalSharesParsed :: int
  usedIndices :: "nat list"

text \<open>
  What each of the four rules does at a hit: the date is looked for behind the run
  \<open>lastRun\<close>, the entry \<^verbatim>\<open>{ shares: A, isLocked: !!date, unlockDate: date }\<close> is pushed, the
  total grows by \<open>A\<close> and the runs of the hit are marked as used.
\<close>

definition pushEntry ::
  "int \<Rightarrow> string \<Rightarrow> num_run \<Rightarrow> int \<Rightarrow> nat list \<Rightarrow> bse_state \<Rightarrow> bse_state" where
  "pushEntry tz text lastRun A hit st =
     (let found = findDateNear tz text (index lastRun + strLength lastRun) 120
      in st\<lparr>lockInEntries :=
               lockInEntries st @ [\<lparr>shares = A, isLocked = truthy found, unlockDate = found\<rparr>],
             totalSharesParsed := totalSharesParsed st + A,
             usedIndices := usedIndices st @ hit\<rparr>)"

text \<open>Rule 1.5: \<open>A\<close> and \<open>B\<close> glued in \<^verbatim>\<open>nums[i]\<close>, \<open>C\<close> one of the next two runs. The
  result is \<open>A\<close> and the index \<open>j\<close> of \<open>C\<close>.\<close>

definition findGluedAB :: "num_run list \<Rightarrow> nat list \<Rightarrow> nat \<Rightarrow> (int \<times> nat) option" where
  "findGluedAB nums used i =
     (let strAB = rawStr (nums ! i)
      in firstSome
           (\<lambda>j. if j \<in> set used then None
                else let C = val (nums ! j)
                     in firstSome
                          (\<lambda>k. let A_str = substring strAB 0 k; B_str = substringFrom strAB k
                               in if leadingZero A_str \<or> leadingZero B_str then None
                                  else case (parseInt A_str, parseInt B_str) of
                                         (Some A_val, Some B_val) \<Rightarrow>
                                           if A_val = C - B_val + 1 \<and> A_val > 100
                                           then Some (A_val, j) else None
                                       | _ \<Rightarrow> None)
                          [1..<length strAB])
           [i + 1..<min (i + 3) (length nums)])"

text \<open>
  The look-ahead for \<open>B\<close> and \<open>C\<close> behind \<open>A = nums[i].val\<close>: for each free \<open>j\<close> among the
  next fourteen runs, a glued pair in \<^verbatim>\<open>nums[j]\<close> (rule 2), then the implicit start
  \<open>A = B\<close> or \<open>A = B - 1\<close>, then a \<open>C\<close> among the nine runs behind \<open>j\<close>. The result is the
  index of the last run of the hit and the indices that the hit uses.
\<close>

definition lookAhead :: "num_run list \<Rightarrow> nat list \<Rightarrow> nat \<Rightarrow> (nat \<times> nat list) option" where
  "lookAhead nums used i =
     (let A = val (nums ! i)
      in firstSome
           (\<lambda>j. if j \<in> set used then None
                else if length (rawStr (nums ! j)) \<ge> 5
                        \<and> findMathPairInString (rawStr (nums ! j)) A \<noteq> None
                     then Some (j, [i, j])
                else let B = val (nums ! j)
                     in if A = B \<or> A = B - 1 then Some (j, [i, j])
                        else firstSome
                               (\<lambda>k. if k \<in> set used then None
                                    else if A = val (nums ! k) - B + 1 then Some (k, [i, j, k])
                                    else None)
                               [j + 1..<min (j + 10) (length nums)])
           [i + 1..<min (i + 15) (length nums)])"

text \<open>The body of \<^verbatim>\<open>for (let i = 0; i < nums.length; i++)\<close>.\<close>

definition bseStep :: "int \<Rightarrow> string \<Rightarrow> num_run list \<Rightarrow> bse_state \<Rightarrow> nat \<Rightarrow> bse_state" where
  "bseStep tz text nums st i =
     (if i \<in> set (usedIndices st) then st
      else case (if length (rawStr (nums ! i)) \<ge> 8
                 then findMathTripletInString (rawStr (nums ! i)) else None) of
        Some (A, B, C) \<Rightarrow> pushEntry tz text (nums ! i) A [i] st
      | None \<Rightarrow>
          (case (if length (rawStr (nums ! i)) \<ge> 2
                 then findGluedAB nums (usedIndices st) i else None) of
             Some (A_val, j) \<Rightarrow> pushEntry tz text (nums ! j) A_val [i, j] st
           | None \<Rightarrow>
               if val (nums ! i) < 1000 then st
               else (case lookAhead nums (usedIndices st) i of
                       Some (e, hit) \<Rightarrow> pushEntry tz text (nums ! e) (val (nums ! i)) hit st
                     | None \<Rightarrow> st)))"

text \<open>The proximity fallback: for a date at \<open>dmIndex\<close>, the value of the run that ends
  closest before it, among the runs of value at least 1000 and fewer than ten digits and
  at a distance below 1000; \<open>0\<close> when there is none.\<close>

definition closestNum :: "num_run list \<Rightarrow> nat \<Rightarrow> int" where
  "closestNum nums dmIndex =
     fst (foldl
            (\<lambda>(closest, minDiff) num.
               if val num < 1000 \<or> length (rawStr num) \<ge> 10 then (closest, minDiff)
               else let diff = int dmIndex - int (index num + strLength num)
                    in if diff > 0 \<and> diff < minDiff then (val num, diff)
                       else (closest, minDiff))
            (0, 1000) nums)"

definition proximityStep ::
  "int \<Rightarrow> num_run list \<Rightarrow> bse_state \<Rightarrow> mstate \<times> mstate \<Rightarrow> bse_state" where
  "proximityStep tz nums st dm =
     (case parseBSEDate tz (matchText dm) of
        None \<Rightarrow> st
      | Some parsedDate \<Rightarrow>
          (let c = closestNum nums (matchIndex dm)
           in if c > 0
              then st\<lparr>lockInEntries :=
                        lockInEntries st
                          @ [\<lparr>shares = c, isLocked = True,
                              unlockDate = Some (toISOString parsedDate)\<rparr>],
                      totalSharesParsed := totalSharesParsed st + c\<rparr>
              else st))"

text \<open>\<^verbatim>\<open>parseUniversalBSEFormat\<close> up to its last line, the call of
  \<^verbatim>\<open>buildUnlockEvents\<close>.\<close>

definition bseFormatState :: "int \<Rightarrow> string \<Rightarrow> bse_state" where
  "bseFormatState tz normText =
     (let text = normalizeMonthDates normText;
          textForNums = maskDates text;
          nums = extractNums textForNums;
          st = foldl (bseStep tz text nums)
                 \<lparr>lockInEntries = [], totalSharesParsed = 0, usedIndices = []\<rparr>
                 [0..<length nums]
      in if lockInEntries st = []
         then foldl (proximityStep tz nums) st (matchAll dateRegex text)
         else st)"

definition bseFormatEntries :: "int \<Rightarrow> string \<Rightarrow> lock_in_entry list \<times> int" where
  "bseFormatEntries tz normText =
     (let st = bseFormatState tz normText in (lockInEntries st, totalSharesParsed st))"

definition parseUniversalBSEFormat :: "int \<Rightarrow> string \<Rightarrow> lock_in_data" where
  "parseUniversalBSEFormat tz normText =
     (case bseFormatEntries tz normText of (entries, tot) \<Rightarrow> buildUnlockEvents entries tot)"

section \<open>parseLockInData\<close>

text \<open>
  The text that \<^verbatim>\<open>pdf-parse\<close> extracts from the buffer is the input here.
  \<^verbatim>\<open>/(\d{1,2})-\s*\n\s*(\w{3,})-\s*\n?\s*(\d{4})/g\<close> and
  \<^verbatim>\<open>/(\d{1,2})-\s*\n\s*(\w{3,})-(\d{4})/g\<close> join a date broken over lines,
  \<^verbatim>\<open>/\s+/g\<close> gives way to one blank.
\<close>

definition brokenDateRegex1 :: rx where
  "brokenDateRegex1 =
     seqs [Group 1 rxD12, rxChr (CHR ''-''), rxStar rxS, rxChr (CHR 0x0A), rxStar rxS,
           Group 2 rxW3, rxChr (CHR ''-''), rxStar rxS, rxOpt (rxChr (CHR 0x0A)), rxStar rxS,
           Group 3 rxD4]"

definition brokenDateRegex2 :: rx where
  "brokenDateRegex2 =
     seqs [Group 1 rxD12, rxChr (CHR ''-''), rxStar rxS, rxChr (CHR 0x0A), rxStar rxS,
           Group 2 rxW3, rxChr (CHR ''-''), Group 3 rxD4]"

definition joinDate :: "mstate \<times> mstate \<Rightarrow> string" where
  "joinDate m = grp m 1 @ ''-'' @ grp m 2 @ ''-'' @ grp m 3"

definition joinBrokenDates :: "string \<Rightarrow> string" where
  "joinBrokenDates text = replaceAll brokenDateRegex2 joinDate (replaceAll brokenDateRegex1 joinDate text)"

definition normalizeWhitespace :: "string \<Rightarrow> string" where
  "normalizeWhitespace text = replaceAll (rxPlus rxS) (\<lambda>m. '' '') text"

definition isNSEFormat :: "string \<Rightarrow> bool" where
  "isNSEFormat normText = (includesStr normText ''Lock in up to'' \<or> includesStr normText ''Lock in upto'')"


definition parseLockInData :: "int \<Rightarrow> string \<Rightarrow> lock_in_data" where
  "parseLockInData tz pdfText =
     (let text = joinBrokenDates pdfText; normText = normalizeWhitespace text
      in if isNSEFormat normText then parseNSEFormat tz normText else parseUniversalBSEFormat tz text)"

section \<open>The network and the resolution of a circular\<close>

text \<open>
  What the scraper reads from outside is a parameter of the model, a record \<open>world\<close>:
  the replies of the exchanges, the text that \<^verbatim>\<open>pdf-parse\<close> extracts, the parsing of a
  date string by \<^verbatim>\<open>new Date(s)\<close> and the clock. The functions of the source that only
  fetch and select pages (\<^verbatim>\<open>downloadNSEAnnexure\<close>, \<^verbatim>\<open>searchBSESMENotices\<close>,
  \<^verbatim>\<open>scanNoticesOnDate\<close>, \<^verbatim>\<open>curlFetchBinary\<close>) are fields of the record under their own
  names. Every function that reaches the network returns, beside its result, the list of
  the calls it made, in order.
\<close>

type_synonym buffer = string

text \<open>The reply of \<^verbatim>\<open>axios.get\<close>: a status and a body, or no reply at all (the request
  throws).\<close>

datatype http_reply = NoReply | Reply nat buffer

text \<open>An element of \<^verbatim>\<open>resp.data.data\<close> of the NSE circulars API.\<close>

record api_circular =
  fileDept :: string
  fileExt :: string
  sub :: string
  circNumber :: string
  circFilelink :: "string option"
  circDisplayNo :: string

text \<open>The result of \<^verbatim>\<open>findNSECircular\<close> and of \<^verbatim>\<open>findBSENotice\<close>.\<close>

record nse_circular =
  nseCircNumber :: string
  zipUrl :: "string option"
  subject :: string
  displayNo :: string

record bse_notice =
  noticeId :: string
  annexureUrl :: "string option"
  title :: string

record world =
  dateParse :: "string \<Rightarrow> jsdate option"
  nseApi :: "string \<Rightarrow> string \<Rightarrow> api_circular list option"
  downloadNSEAnnexure :: "string \<Rightarrow> buffer option"
  pdfParse :: "buffer \<Rightarrow> string option"
  searchBSESMENotices :: "string list \<Rightarrow> bse_notice option"
  scanNoticesOnDate :: "string \<Rightarrow> string \<Rightarrow> bse_notice option"
  axiosGetPdf :: "string \<Rightarrow> http_reply"
  curlFetchBinary :: "string \<Rightarrow> buffer option"
  clock :: jsdate

datatype call =
    NseApiQuery string string
  | NseZipDownload string
  | PdfParse
  | SmeNoticeSearch "string list"
  | BseSession
  | NoticeScan string string
  | AxiosPdfGet string
  | CurlPdfGet string

subsection \<open>downloadBSEPDF\<close>

datatype error = Error string

text \<open>
  The primary request resolves for a status below 500 (\<^verbatim>\<open>validateStatus\<close>) and its body
  is returned when the status is 200. In every other case, and when the request throws,
  the download is repeated through curl, whose result is refused when it is \<^verbatim>\<open>null\<close> or
  shorter than 100 bytes.
\<close>

definition curlDownload :: "world \<Rightarrow> string \<Rightarrow> error + buffer" where
  "curlDownload w pdfUrl =
     (case curlFetchBinary w pdfUrl of
        None \<Rightarrow> Inl (Error ''curl PDF download returned empty or too-small response'')
      | Some b \<Rightarrow>
          if length b < 100
          then Inl (Error ''curl PDF download returned empty or too-small response'')
          else Inr b)"

definition downloadBSEPDF :: "world \<Rightarrow> string \<Rightarrow> (error + buffer) \<times> call list" where
  "downloadBSEPDF w pdfUrl =
     (case axiosGetPdf w pdfUrl of
        Reply status body \<Rightarrow>
          if status < 500 \<and> status = 200 then (Inr body, [AxiosPdfGet pdfUrl])
          else (curlDownload w pdfUrl, [AxiosPdfGet pdfUrl, CurlPdfGet pdfUrl])
      | NoReply \<Rightarrow> (curlDownload w pdfUrl, [AxiosPdfGet pdfUrl, CurlPdfGet pdfUrl]))"

subsection \<open>findNSECircular\<close>

text \<open>\<^verbatim>\<open>(LTD|LIMITED|INDIA|PRIVATE|PVT)\.?\<close> behind a blank, as the three expressions of
  the two name normalisations use it.\<close>

definition legalSuffix :: rx where
  "legalSuffix =
     seqs [rxChr (CHR '' ''),
           alts [lit ''LTD'', lit ''LIMITED'', lit ''INDIA'', lit ''PRIVATE'', lit ''PVT''],
           rxOpt (rxChr (CHR ''.''))]"

text \<open>\<^verbatim>\<open>.replace(/[^A-Z0-9 ]/g, '')\<close>\<close>

definition keepUpperDigitsBlank :: "string \<Rightarrow> string" where
  "keepUpperDigitsBlank s = filter (\<lambda>c. isUpper c \<or> isDigit c \<or> c = CHR '' '') s"

text \<open>\<^verbatim>\<open>s.split(/\s+/).filter(w => w.length >= 3)\<close>\<close>

definition significantWords :: "string \<Rightarrow> string list" where
  "significantWords s = filter (\<lambda>w. length w \<ge> 3) (splitOn (rxPlus rxS) s)"

definition nseNormalizedSearch :: "string \<Rightarrow> string" where
  "nseNormalizedSearch companyName =
     trim (keepUpperDigitsBlank
       (replaceAll (Seq legalSuffix (rxChr (CHR '' ''))) (\<lambda>m. '' '')
         (replaceAll (Seq legalSuffix AtEnd) (\<lambda>m. [])
           (toUpperCase companyName))))"

text \<open>The day, month and year of a date in local time, as \<^verbatim>\<open>DD-MM-YYYY\<close>.\<close>

definition nseApiDate :: "int \<Rightarrow> jsdate \<Rightarrow> string" where
  "nseApiDate tz d =
     pad2 (getDate tz d) @ ''-'' @ pad2 (getMonth tz d + 1) @ ''-'' @ intToString (getFullYear tz d)"

text \<open>The filter on the circulars of the reply.\<close>

definition isListingCircular :: "string list \<Rightarrow> api_circular \<Rightarrow> bool" where
  "isListingCircular searchWords c =
     (if fileDept c \<noteq> ''CML'' \<or> fileExt c \<noteq> ''zip'' then False
      else let s = toUpperCase (sub c)
           in if \<not> includesStr s ''LISTING OF EQUITY SHARES'' then False
              else let normalizedSub = keepUpperDigitsBlank s;
                       matchCount = length (filter (\<lambda>w. includesStr normalizedSub w) searchWords)
                   in matchCount \<ge> min (length searchWords) 2)"

definition findNSECircular ::
  "world \<Rightarrow> int \<Rightarrow> string option \<Rightarrow> string option \<Rightarrow> nse_circular option \<times> call list" where
  "findNSECircular w tz companyName listingDateISO =
     (if \<not> truthy companyName \<or> \<not> truthy listingDateISO then (None, [])
      else case dateParse w (the listingDateISO) of
        None \<Rightarrow> (None, [])
      | Some listDate \<Rightarrow>
          (let fromStr = nseApiDate tz (setDate tz listDate (getDate tz listDate - 10));
               toStr = nseApiDate tz (setDate tz listDate (getDate tz listDate + 10));
               searchWords = significantWords (nseNormalizedSearch (the companyName));
               found =
                 (case nseApi w fromStr toStr of
                    None \<Rightarrow> None
                  | Some circs \<Rightarrow>
                      (case filter (isListingCircular searchWords) circs of
                         [] \<Rightarrow> None
                       | c # _ \<Rightarrow>
                           Some \<lparr>nseCircNumber = circNumber c, zipUrl = circFilelink c,
                                 subject = sub c, displayNo = circDisplayNo c\<rparr>))
           in (found, [NseApiQuery fromStr toStr])))"

subsection \<open>findBSENotice\<close>

text \<open>\<^verbatim>\<open>formatDateForNotice\<close>: \<^verbatim>\<open>YYYYMMDD\<close> of the local date.\<close>

definition formatDateForNotice :: "int \<Rightarrow> jsdate \<Rightarrow> string" where
  "formatDateForNotice tz d =
     intToString (getFullYear tz d) @ pad2 (getMonth tz d + 1) @ pad2 (getDate tz d)"

text \<open>The body of \<^verbatim>\<open>for (let offset = 0; offset <= 5; offset++)\<close>: what one round pushes
  on \<^verbatim>\<open>datesToScan\<close>.\<close>

definition datesAtOffset :: "int \<Rightarrow> jsdate \<Rightarrow> int \<Rightarrow> string list" where
  "datesAtOffset tz listDate offset =
     (if offset > 0
      then [formatDateForNotice tz (setDate tz listDate (getDate tz listDate - offset))]
      else [])
     @ [formatDateForNotice tz (setDate tz listDate (getDate tz listDate + offset))]"

definition datesToScan :: "int \<Rightarrow> jsdate \<Rightarrow> string list" where
  "datesToScan tz listDate = concat (map (datesAtOffset tz listDate) [0, 1, 2, 3, 4, 5])"

text \<open>\<^verbatim>\<open>[...new Set(xs)]\<close>: the first occurrence of each element, in order.\<close>

fun uniqueInOrder :: "'a list \<Rightarrow> 'a list" where
  "uniqueInOrder [] = []"
| "uniqueInOrder (x # xs) = x # uniqueInOrder (filter (\<lambda>y. y \<noteq> x) xs)"

text \<open>The \<^verbatim>\<open>for (const dateStr of ...)\<close> loop: the first date whose scan finds a notice
  ends it; the dates scanned until then are recorded.\<close>

fun scanDates ::
  "world \<Rightarrow> string \<Rightarrow> string list \<Rightarrow> bse_notice option \<times> call list" where
  "scanDates w normalizedSearch [] = (None, [])"
| "scanDates w normalizedSearch (dateStr # ds) =
     (case scanNoticesOnDate w dateStr normalizedSearch of
        Some r \<Rightarrow> (Some r, [NoticeScan dateStr normalizedSearch])
      | None \<Rightarrow>
          (let (r, calls) = scanDates w normalizedSearch ds
           in (r, NoticeScan dateStr normalizedSearch # calls)))"

definition bseNormalizedSearch :: "string \<Rightarrow> string" where
  "bseNormalizedSearch companyName =
     trim (keepUpperDigitsBlank (replaceAll legalSuffix (\<lambda>m. []) (toUpperCase companyName)))"

definition findBSENotice ::
  "world \<Rightarrow> int \<Rightarrow> string option \<Rightarrow> string option \<Rightarrow> bse_notice option \<times> call list" where
  "findBSENotice w tz companyName listingDateISO =
     (if \<not> truthy companyName \<or> \<not> truthy listingDateISO then (None, [])
      else let normalizedSearch = bseNormalizedSearch (the companyName);
               searchWords = significantWords normalizedSearch
           in case searchBSESMENotices w searchWords of
                Some smeResult \<Rightarrow> (Some smeResult, [SmeNoticeSearch searchWords])
              | None \<Rightarrow>
                  (case dateParse w (the listingDateISO) of
                     None \<Rightarrow> (None, [SmeNoticeSearch searchWords, BseSession])
                   | Some listDate \<Rightarrow>
                       (let (r, calls) =
                              scanDates w normalizedSearch
                                (uniqueInOrder (datesToScan tz listDate))
                        in (r, [SmeNoticeSearch searchWords, BseSession] @ calls))))"

subsection \<open>getUnlockPercentages\<close>

text \<open>
  The value returned: \<^verbatim>\<open>null\<close>, the lock-in data with \<^verbatim>\<open>source\<close>, \<^verbatim>\<open>noticeId\<close> and
  \<^verbatim>\<open>fetchedAt\<close>, or one of the two objects that hand the work to the client, kept as
  the list of their properties.
\<close>

datatype jsvalue = JBool bool | JStr string | JNullish

datatype resolution =
    NotFound
  | Resolved lock_in_data string string string
  | Signal "(string \<times> jsvalue) list"

definition jsString :: "string option \<Rightarrow> jsvalue" where
  "jsString v = (case v of None \<Rightarrow> JNullish | Some s \<Rightarrow> JStr s)"

definition needsClientFetch :: "string \<Rightarrow> resolution" where
  "needsClientFetch nid =
     Signal [(''needsClientFetch'', JBool True), (''bseNoticeId'', JStr nid),
             (''source'', JStr ''BSE'')]"

definition needsBSESearch :: "string option \<Rightarrow> string option \<Rightarrow> resolution" where
  "needsBSESearch listingDateISO companyName =
     Signal [(''needsBSESearch'', JBool True), (''listingDate'', jsString listingDateISO),
             (''companyName'', jsString companyName), (''source'', JStr ''BSE'')]"

text \<open>The NSE branch: the result to return, if any, and the calls made. A download or
  an extraction that throws is caught and leads on to the BSE branch, as an empty
  schedule does.\<close>

definition tryNSE ::
  "world \<Rightarrow> int \<Rightarrow> nse_circular option \<Rightarrow> resolution option \<times> call list" where
  "tryNSE w tz nseCircular =
     (case nseCircular of
        None \<Rightarrow> (None, [])
      | Some c \<Rightarrow>
          (if \<not> truthy (zipUrl c) then (None, [])
           else case downloadNSEAnnexure w (the (zipUrl c)) of
                  None \<Rightarrow> (None, [NseZipDownload (the (zipUrl c))])
                | Some pdfBuffer \<Rightarrow>
                    (case pdfParse w pdfBuffer of
                       None \<Rightarrow> (None, [NseZipDownload (the (zipUrl c)), PdfParse])
                     | Some text \<Rightarrow>
                         (let lockInData = parseLockInData tz text
                          in (if unlockEvents lockInData \<noteq> []
                              then Some (Resolved lockInData ''NSE'' (displayNo c)
                                           (toISOString (clock w)))
                              else None,
                              [NseZipDownload (the (zipUrl c)), PdfParse])))))"

text \<open>\<^verbatim>\<open>(exchange || '').toUpperCase().includes('BSE')\<close>\<close>

definition isBSE :: "string option \<Rightarrow> bool" where
  "isBSE exchange =
     includesStr (toUpperCase (case exchange of None \<Rightarrow> [] | Some x \<Rightarrow> x)) ''BSE''"

text \<open>The BSE branch and the hand-over to the client.\<close>

definition tryBSE ::
  "world \<Rightarrow> int \<Rightarrow> bse_notice option \<Rightarrow> string option \<Rightarrow> string option \<Rightarrow> string option
     \<Rightarrow> resolution \<times> call list" where
  "tryBSE w tz bseNotice companyName exchange listingDateISO =
     (case bseNotice of
        Some n \<Rightarrow>
          (if truthy (annexureUrl n) then
             (case downloadBSEPDF w (the (annexureUrl n)) of
                (Inl e, calls) \<Rightarrow> (needsClientFetch (noticeId n), calls)
              | (Inr pdfBuffer, calls) \<Rightarrow>
                  (case pdfParse w pdfBuffer of
                     None \<Rightarrow> (needsClientFetch (noticeId n), calls @ [PdfParse])
                   | Some text \<Rightarrow>
                       (Resolved (parseLockInData tz text) ''BSE'' (noticeId n)
                          (toISOString (clock w)),
                        calls @ [PdfParse])))
           else if noticeId n \<noteq> [] then (needsClientFetch (noticeId n), [])
           else if isBSE exchange then (needsBSESearch listingDateISO companyName, [])
           else (NotFound, []))
      | None \<Rightarrow>
          (if isBSE exchange then (needsBSESearch listingDateISO companyName, [])
           else (NotFound, [])))"

definition getUnlockPercentages ::
  "world \<Rightarrow> int \<Rightarrow> string option \<Rightarrow> string option \<Rightarrow> string option
     \<Rightarrow> resolution \<times> call list" where
  "getUnlockPercentages w tz companyName exchange listingDateISO =
     (if \<not> truthy listingDateISO then (NotFound, [])
      else let (nseCircular, calls1) = findNSECircular w tz companyName listingDateISO;
               (nseResult, calls2) = tryNSE w tz nseCircular
           in case nseResult of
                Some r \<Rightarrow> (r, calls1 @ calls2)
              | None \<Rightarrow>
                  (let (bseNotice, calls3) = findBSENotice w tz companyName listingDateISO;
                       (r, calls4) = tryBSE w tz bseNotice companyName exchange listingDateISO
                   in (r, calls1 @ calls2 @ calls3 @ calls4)))"

section \<open>The properties, as the specification words them\<close>

text \<open>
  The definitions of this section are not taken from the source: they restate what the
  specification says, for the theorems below to compare with the functions embedded above.
\<close>










text \<open>
  Scenario A: the two rows of the specification, alone and under the column header of
  an NSE annexure (which selects the structured parser).
\<close>

definition scenarioRows :: string where
  "scenarioRows =
     ''8723813 1 8723813 20-Sep-2025'' @ [CHR 0x0A] @ ''3242 17447641 17450882 Free''"

definition scenarioA :: string where
  "scenarioA =
     ''No. of Equity Shares Distinctive Nos. From To Lock in up to'' @ [CHR 0x0A] @ scenarioRows"


text \<open>
  A world in which nothing is found: the API answers with no circular, no download
  succeeds, no notice exists. \<^verbatim>\<open>new Date('2025-09-20')\<close> is midnight UTC of that day; no
  other string is a date.
\<close>

definition quietWorld :: world where
  "quietWorld =
     \<lparr>dateParse = (\<lambda>s. if s = ''2025-09-20'' then Some 1758326400000 else None),
      nseApi = (\<lambda>fromStr toStr. Some []),
      downloadNSEAnnexure = (\<lambda>url. None),
      pdfParse = (\<lambda>b. None),
      searchBSESMENotices = (\<lambda>ws. None),
      scanNoticesOnDate = (\<lambda>d s. None),
      axiosGetPdf = (\<lambda>url. NoReply),
      curlFetchBinary = (\<lambda>url. None),
      clock = 1762128000000\<rparr>"

section \<open>The aggregator\<close>

subsection \<open>The loop over the entries\<close>










subsection \<open>Sums and sorted keys\<close>










subsection \<open>What the events hold\<close>




subsection \<open>Percentages\<close>




section \<open>The claims about the aggregator\<close>









section \<open>The parsers\<close>

subsection \<open>Their bookkeeping\<close>


























subsection \<open>The scenarios of the specification\<close>

text \<open>
  C1. Scenario A on a host whose local time is ahead of UTC, here India (\<open>tz = 330\<close>): the
  total and the shares are those of the specification, but the dated event is on
  2025-09-19, the day before the date of the row. \<^verbatim>\<open>parseBSEDate\<close> builds local midnight of
  20 September and \<^verbatim>\<open>toISOString\<close> prints that instant in UTC.
\<close>

theorem scenarioA_ahead_of_UTC:
  "parseLockInData 330 scenarioA =
     \<lparr>totalShares = 8727055,
      unlockEvents =
        [\<lparr>date = None, eventShares = 3242, percentage = 0, label = Some ''Not under lock-in''\<rparr>,
         \<lparr>date = Some ''2025-09-19'', eventShares = 8723813, percentage = 100, label = None\<rparr>]\<rparr>"
  by code_simp

text \<open>On a host on UTC the result is the one the specification gives, for the rows under
  their header (the structured parser) and for the rows alone (the reconciliation parser);
  the percentage of the dated event is 100.0, which is 99.96 at one decimal place.\<close>

lemma scenarioA_on_UTC:
  "parseLockInData 0 scenarioA =
     \<lparr>totalShares = 8727055,
      unlockEvents =
        [\<lparr>date = None, eventShares = 3242, percentage = 0, label = Some ''Not under lock-in''\<rparr>,
         \<lparr>date = Some ''2025-09-20'', eventShares = 8723813, percentage = 100, label = None\<rparr>]\<rparr>"
  by code_simp

lemma scenarioRows_on_UTC:
  "parseLockInData 0 scenarioRows = parseLockInData 0 scenarioA"
  by code_simp



section \<open>Retrieval and resolution\<close>

lemma scanDates_nothing:
  "\<forall>d s. scanNoticesOnDate w d s = None \<Longrightarrow> fst (scanDates w ns ds) = None"
  by (induction ds) (simp_all add: case_prod_beta)

lemma findBSENotice_nothing:
  assumes "\<forall>ws. searchBSESMENotices w ws = None" and "\<forall>d s. scanNoticesOnDate w d s = None"
  shows "fst (findBSENotice w tz companyName listingDateISO) = None"
  using assms scanDates_nothing[OF assms(2)]
  by (simp add: findBSENotice_def Let_def case_prod_beta split: option.splits)

text \<open>
  C5, as amended. When a listing date is given, the NSE branch yields nothing (no circular,
  or no schedule from its document) and \<^const>\<open>findBSENotice\<close> yields nothing (neither the BSE
  SME search nor the scan of the dates finds a notice), the result is the object
  \<open>{needsBSESearch: true, listingDate, companyName, source: 'BSE'}\<close> if the exchange hint
  contains \<open>BSE\<close> in any letter case, and not-found otherwise.
\<close>

theorem delegation_signal:
  assumes "truthy listingDateISO"
    and "fst (tryNSE w tz (fst (findNSECircular w tz companyName listingDateISO))) = None"
    and "fst (findBSENotice w tz companyName listingDateISO) = None"
  shows "fst (getUnlockPercentages w tz companyName exchange listingDateISO) =
           (if isBSE exchange
            then Signal [(''needsBSESearch'', JBool True),
                         (''listingDate'', jsString listingDateISO),
                         (''companyName'', jsString companyName),
                         (''source'', JStr ''BSE'')]
            else NotFound)"
proof -
  obtain c r1 where nse: "findNSECircular w tz companyName listingDateISO = (c, r1)"
    by (cases "findNSECircular w tz companyName listingDateISO")
  obtain r2 where nse_none: "tryNSE w tz c = (None, r2)"
    using assms(2) unfolding nse by (cases "tryNSE w tz c") simp
  obtain r3 where bse: "findBSENotice w tz companyName listingDateISO = (None, r3)"
    using assms(3) by (cases "findBSENotice w tz companyName listingDateISO") simp
  show ?thesis
    using assms(1)
    by (simp add: getUnlockPercentages_def nse nse_none bse tryBSE_def needsBSESearch_def)
qed

theorem delegation_signal_witness:
  "fst (getUnlockPercentages quietWorld 0 (Some ''Acme Widgets Ltd'') (Some ''BSE SME'')
          (Some ''2025-09-20''))
     = Signal [(''needsBSESearch'', JBool True), (''listingDate'', JStr ''2025-09-20''),
               (''companyName'', JStr ''Acme Widgets Ltd''), (''source'', JStr ''BSE'')]
   \<and> fst (getUnlockPercentages quietWorld 0 (Some ''Acme Widgets Ltd'') (Some ''NSE'')
          (Some ''2025-09-20'')) = NotFound"
proof -
  have a: "truthy (Some ''2025-09-20'')" by simp
  have b: "fst (tryNSE quietWorld 0
             (fst (findNSECircular quietWorld 0 (Some ''Acme Widgets Ltd'') (Some ''2025-09-20''))))
           = None"
    by code_simp
  have c: "fst (findBSENotice quietWorld 0 (Some ''Acme Widgets Ltd'') (Some ''2025-09-20'')) = None"
    by (rule findBSENotice_nothing) (simp_all add: quietWorld_def)
  have e: "isBSE (Some ''BSE SME'')" "\<not> isBSE (Some ''NSE'')" by code_simp+
  show ?thesis
    using delegation_signal[OF a b c, of "Some ''BSE SME''"]
          delegation_signal[OF a b c, of "Some ''NSE''"] e
    by (simp add: jsString_def)
qed

text \<open>
  The object returned has a fourth property, \<open>source\<close>: it is not exactly the object of
  three properties that the specification gives.
\<close>

theorem delegation_signal_counterexample:
  "fst (getUnlockPercentages quietWorld 0 (Some ''Acme Widgets Ltd'') (Some ''BSE SME'')
          (Some ''2025-09-20''))
     \<noteq> Signal [(''needsBSESearch'', JBool True), (''listingDate'', JStr ''2025-09-20''),
               (''companyName'', JStr ''Acme Widgets Ltd'')]"
  by code_simp

text \<open>
  C6, as amended. A missing listing date ends the resolution at once with not-found and
  without any call. A missing company name, with a listing date, makes no call either, and
  the result is not-found when the exchange hint does not name BSE. A listing date that
  does not parse, with a company name, skips the NSE query and the scan of the dates, but
  the search of the BSE SME notice list still runs (and the BSE session is opened); when
  that search finds nothing, the result is not-found when the exchange hint does not name
  BSE.
\<close>

theorem malformed_input:
  "(\<not> truthy listingDateISO \<longrightarrow>
      getUnlockPercentages w tz companyName exchange listingDateISO = (NotFound, []))
   \<and> (truthy listingDateISO \<and> \<not> truthy companyName \<longrightarrow>
      snd (getUnlockPercentages w tz companyName exchange listingDateISO) = []
      \<and> (\<not> isBSE exchange \<longrightarrow>
           fst (getUnlockPercentages w tz companyName exchange listingDateISO) = NotFound))
   \<and> (truthy listingDateISO \<and> truthy companyName \<and> dateParse w (the listingDateISO) = None
        \<and> searchBSESMENotices w (significantWords (bseNormalizedSearch (the companyName))) = None \<longrightarrow>
      snd (getUnlockPercentages w tz companyName exchange listingDateISO) =
        [SmeNoticeSearch (significantWords (bseNormalizedSearch (the companyName))), BseSession]
      \<and> (\<not> isBSE exchange \<longrightarrow>
           fst (getUnlockPercentages w tz companyName exchange listingDateISO) = NotFound))"
  by (simp add: getUnlockPercentages_def findNSECircular_def findBSENotice_def tryNSE_def
        tryBSE_def Let_def)

theorem malformed_input_witness:
  "getUnlockPercentages quietWorld 0 (Some ''Acme Widgets Ltd'') (Some ''BSE'') None = (NotFound, [])
   \<and> getUnlockPercentages quietWorld 0 None (Some ''NSE'') (Some ''2025-09-20'') = (NotFound, [])
   \<and> getUnlockPercentages quietWorld 0 (Some ''Acme Widgets Ltd'') (Some ''NSE'') (Some ''soon'')
       = (NotFound, [SmeNoticeSearch [''ACME'', ''WIDGETS''], BseSession])"
proof -
  have a: "\<not> truthy None" "truthy (Some ''2025-09-20'')" "truthy (Some ''soon'')"
    "truthy (Some ''Acme Widgets Ltd'')" by simp_all
  have b: "\<not> isBSE (Some ''NSE'')" by code_simp
  have c: "dateParse quietWorld ''soon'' = None" by (simp add: quietWorld_def)
  have d: "searchBSESMENotices quietWorld ws = None" for ws by (simp add: quietWorld_def)
  have e: "significantWords (bseNormalizedSearch ''Acme Widgets Ltd'') = [''ACME'', ''WIDGETS'']"
    by code_simp
  show ?thesis
    using malformed_input[where listingDateISO = None and w = quietWorld and tz = 0
            and companyName = "Some ''Acme Widgets Ltd''" and exchange = "Some ''BSE''"]
          malformed_input[where listingDateISO = "Some ''2025-09-20''" and w = quietWorld
            and tz = 0 and companyName = None and exchange = "Some ''NSE''"]
          malformed_input[where listingDateISO = "Some ''soon''" and w = quietWorld and tz = 0
            and companyName = "Some ''Acme Widgets Ltd''" and exchange = "Some ''NSE''"]
          a b c d e
    by (simp add: prod_eq_iff)
qed

text \<open>
  The claim as the specification words it fails twice. Without a company name and with
  the hint \<open>BSE\<close>, the result is the delegation signal, not not-found. With a listing date
  that does not parse, a search strategy runs (the SME notice list), and with the hint
  \<open>BSE\<close> the result is again the delegation signal.
\<close>

theorem malformed_input_counterexample:
  "getUnlockPercentages quietWorld 0 None (Some ''BSE'') (Some ''2025-09-20'')
     = (Signal [(''needsBSESearch'', JBool True), (''listingDate'', JStr ''2025-09-20''),
                (''companyName'', JNullish), (''source'', JStr ''BSE'')], [])
   \<and> getUnlockPercentages quietWorld 0 (Some ''Acme Widgets Ltd'') (Some ''BSE'') (Some ''soon'')
     = (Signal [(''needsBSESearch'', JBool True), (''listingDate'', JStr ''soon''),
                (''companyName'', JStr ''Acme Widgets Ltd''), (''source'', JStr ''BSE'')],
        [SmeNoticeSearch [''ACME'', ''WIDGETS''], BseSession])"
  by code_simp

text \<open>
  C7, as amended. For every listing date the candidate dates are generated by increasing
  offset from the listing date, backward then forward at each offset: the offsets
  \<open>0, -1, +1, -2, +2\<close> and so on up to \<open>-5, +5\<close>, each applied to the day of the month in
  local time.
\<close>

theorem datesToScan_order:
  "datesToScan tz listDate =
     map (\<lambda>k. formatDateForNotice tz (setDate tz listDate (getDate tz listDate + k)))
       [0, -1, 1, -2, 2, -3, 3, -4, 4, -5, 5]"
  by (simp add: datesToScan_def datesAtOffset_def)

text \<open>
  For the listing date 2025-09-20 the second candidate is the 19th, not the 21st: the order
  of the specification, forward then backward, is not the order of the code.
\<close>

theorem datesToScan_counterexample:
  "datesToScan 0 1758326400000 =
     [''20250920'', ''20250919'', ''20250921'', ''20250918'', ''20250922'', ''20250917'',
      ''20250923'', ''20250916'', ''20250924'', ''20250915'', ''20250925'']
   \<and> datesToScan 0 1758326400000 \<noteq>
     [''20250920'', ''20250921'', ''20250919'', ''20250922'', ''20250918'', ''20250923'',
      ''20250917'', ''20250924'', ''20250916'', ''20250925'', ''20250915'']"
  by code_simp

text \<open>
  C8, as amended. When the primary request answers with status 200, its body is the
  result, whatever its length. In every other case the payload of the fallback decides:
  the download fails with an error when curl returns nothing or fewer than 100 bytes, and
  returns the payload otherwise.
\<close>

theorem downloadBSEPDF_size_check:
  "(axiosGetPdf w url = Reply 200 body \<longrightarrow> fst (downloadBSEPDF w url) = Inr body)
   \<and> ((\<forall>body. axiosGetPdf w url \<noteq> Reply 200 body) \<longrightarrow>
        fst (downloadBSEPDF w url) =
          (case curlFetchBinary w url of
             None \<Rightarrow> Inl (Error ''curl PDF download returned empty or too-small response'')
           | Some b \<Rightarrow>
               if length b < 100
               then Inl (Error ''curl PDF download returned empty or too-small response'')
               else Inr b))"
  by (auto simp: downloadBSEPDF_def curlDownload_def split: http_reply.splits option.splits)

theorem downloadBSEPDF_size_check_witness:
  "fst (downloadBSEPDF (quietWorld\<lparr>axiosGetPdf := (\<lambda>url. Reply 403 ''Access Denied''),
                                   curlFetchBinary := (\<lambda>url. Some ''tiny'')\<rparr>) ''u'')
     = Inl (Error ''curl PDF download returned empty or too-small response'')"
proof -
  define w where "w = quietWorld\<lparr>axiosGetPdf := (\<lambda>url. Reply 403 ''Access Denied''),
                                 curlFetchBinary := (\<lambda>url. Some ''tiny'')\<rparr>"
  have a: "\<forall>body. axiosGetPdf w ''u'' \<noteq> Reply 200 body" by (simp add: w_def)
  have b: "curlFetchBinary w ''u'' = Some ''tiny''" by (simp add: w_def)
  show ?thesis
    using downloadBSEPDF_size_check[of w "''u''"] a b unfolding w_def[symmetric] by simp
qed

text \<open>
  A body of four bytes that the primary request receives with status 200 is returned as
  the document, and curl is not called.
\<close>

theorem downloadBSEPDF_counterexample:
  "downloadBSEPDF (quietWorld\<lparr>axiosGetPdf := (\<lambda>url. Reply 200 ''tiny'')\<rparr>) ''u''
     = (Inr ''tiny'', [AxiosPdfGet ''u''])"
  by (simp add: downloadBSEPDF_def)


end
